theory Spec2Isabelle
  imports
    Complex_Main
    "HOL-Library.Char_ord"
    "HOL-Library.List_Lexorder"
    "HOL-Library.Product_Lexorder"
    "HOL-Library.Log_Nat"
begin

section \<open>Inventory vs Sales DOI dashboard (src/app.py)\<close>

text \<open>
  The script reads two CSV files into pandas data frames, aggregates both, joins them,
  derives the days-of-inventory metric (DOI) and lets the user re-slice the result.
  Each statement of the script is a function on tables below; a table is the list of
  its rows, in row order.

  Modelling conventions.
  \<^item> A cell of a text column is a \<open>string option\<close>: \<open>None\<close> is pandas' NaN (an empty
    CSV cell, or a key that a lookup did not find). Strings are lists of 8-bit
    characters; case conversion is the ASCII one.
  \<^item> A cell of a quantity column is an \<open>int\<close> (the columns are integer columns, and
    int64 wrap-around is out of range for stock quantities).
  \<^item> An order date is an \<open>int\<close> (a timestamp), so dates are linearly ordered.
  \<^item> A Python float is the rational number it denotes. \<open>binary64\<close> rounds a rational
    to the nearest double (ties to even, 53 bit significand); exponent overflow and
    subnormals do not arise for int64 quantities and are not modelled.
  \<^item> An exception is a value of type \<open>error\<close>; a step that can raise returns
    \<open>error + 'a\<close>.
  \<^item> The window size \<open>x\<close> comes from a number input bounded by \<open>min_value = 1\<close> and
    \<open>max_value = unique_days\<close>, so \<open>1 \<le> x\<close> whenever the script computes.
\<close>

subsection \<open>Floating point\<close>

definition round_half_even :: "rat \<Rightarrow> int" where
  "round_half_even q =
     (let n = \<lfloor>q\<rfloor>; d = q - of_int n
      in if d < 1 / 2 then n else if 1 / 2 < d then n + 1 else if even n then n else n + 1)"

definition pow2 :: "int \<Rightarrow> rat" where
  "pow2 e = (if 0 \<le> e then 2 ^ nat e else 1 / 2 ^ nat (- e))"

text \<open>\<open>ilog2 a\<close> is the exponent of the binade of \<open>a > 0\<close>: \<open>2 ^ ilog2 a \<le> a < 2 ^ (ilog2 a + 1)\<close>.\<close>

definition ilog2 :: "rat \<Rightarrow> int" where
  "ilog2 a =
     (if 1 \<le> a then int (floorlog 2 (nat \<lfloor>a\<rfloor>)) - 1
      else - int (floorlog 2 (nat (\<lceil>1 / a\<rceil> - 1))))"

definition binary64 :: "rat \<Rightarrow> rat" where
  "binary64 q =
     (if q = 0 then 0
      else let u = pow2 (ilog2 \<bar>q\<bar> - 52)
           in sgn q * of_int (round_half_even (\<bar>q\<bar> / u)) * u)"

text \<open>Conversion of an integer to a float, as both numpy and Python do before dividing.\<close>

definition float_of_int :: "int \<Rightarrow> rat" where
  "float_of_int n = binary64 (of_int n)"

text \<open>numpy's true division of an int64 column by the Python int \<open>x\<close> (line 74).\<close>

definition np_true_divide :: "int \<Rightarrow> nat \<Rightarrow> rat" where
  "np_true_divide n x = binary64 (float_of_int n / float_of_int (int x))"

datatype error = KeyError "string list" | ZeroDivisionError

text \<open>
  Python's \<open>int / float\<close> on the scalars of a row: the int is converted, and a zero divisor
  raises \<open>ZeroDivisionError\<close>.
\<close>

definition py_truediv :: "int \<Rightarrow> rat \<Rightarrow> error + rat" where
  "py_truediv n d =
     (if d = 0 then Inl ZeroDivisionError else Inr (binary64 (float_of_int n / d)))"

text \<open>
  Python's \<open>round(v, 2)\<close> on a float: the exact value of \<open>v\<close> rounded to two decimals
  (ties to even), then the nearest double.
\<close>

definition py_round2 :: "rat \<Rightarrow> rat" where
  "py_round2 v = binary64 (of_int (round_half_even (v * 100)) / 100)"

definition np_floor :: "rat \<Rightarrow> rat" where
  "np_floor v = of_int \<lfloor>v\<rfloor>"

subsection \<open>Strings\<close>

definition upper_char :: "char \<Rightarrow> char" where
  "upper_char c =
     (let n = of_char c :: nat in if 97 \<le> n \<and> n \<le> 122 then char_of (n - 32) else c)"

definition lower_char :: "char \<Rightarrow> char" where
  "lower_char c =
     (let n = of_char c :: nat in if 65 \<le> n \<and> n \<le> 90 then char_of (n + 32) else c)"

text \<open>\<open>Series.str.upper()\<close>: NaN stays NaN.\<close>

definition str_upper :: "string option \<Rightarrow> string option" where
  "str_upper cell = map_option (map upper_char) cell"

text \<open>
  The regular expression of line 81 is an alternation of literals. \<open>match_here\<close> matches
  one literal at the start of the text, ignoring case; \<open>re_search\<close> is \<open>re.search\<close>: it
  tries every start position from left to right, and at each the alternatives in order.
\<close>

fun match_here :: "string \<Rightarrow> string \<Rightarrow> bool" where
  "match_here [] s = True"
| "match_here (p # ps) [] = False"
| "match_here (p # ps) (c # cs) = (lower_char p = lower_char c \<and> match_here ps cs)"

fun re_search :: "string list \<Rightarrow> string \<Rightarrow> bool" where
  "re_search alts [] = list_ex (\<lambda>p. match_here p []) alts"
| "re_search alts (c # cs) = (list_ex (\<lambda>p. match_here p (c # cs)) alts \<or> re_search alts cs)"

text \<open>\<open>Series.str.contains(pat, case=False, na=na)\<close> on one cell.\<close>

definition str_contains :: "string list \<Rightarrow> bool \<Rightarrow> string option \<Rightarrow> bool" where
  "str_contains alts na cell = (case cell of None \<Rightarrow> na | Some s \<Rightarrow> re_search alts s)"

subsection \<open>Tables\<close>

text \<open>
  \<open>Inventory_df\<close> and \<open>inventory_agg\<close> have the columns of the inventory file.
  \<open>Sales_df\<close> has the columns of the sales file; its columns carry the prefix \<open>S_\<close>
  here, the columns of the grouped sales table the prefix \<open>SG_\<close>, since the merged table
  has columns of the same names. \<open>S_PRODUCT_NAME\<close> is the column that line 29 adds.
\<close>

record inventory_record =
  City :: "string option"
  SkuDescription :: "string option"
  SkuCode :: "string option"
  OpenPoQuantity :: int
  WarehouseQtyAvailable :: int

record sales_record =
  ORDERED_DATE :: int
  S_CITY :: "string option"
  S_ITEM_CODE :: "string option"
  S_UNITS_SOLD :: int

record sales_named = sales_record +
  S_PRODUCT_NAME :: "string option"

record sales_group =
  SG_CITY :: "string option"
  SG_PRODUCT_NAME :: "string option"
  SG_ITEM_CODE :: "string option"
  SG_UNITS_SOLD :: int

record inventory_renamed_row =
  CITY :: "string option"
  ITEM_CODE :: "string option"
  PRODUCT_NAME :: "string option"
  OPEN_PO_QUANTITY :: int
  WAREHOUSE_QTY :: int

record merged_row = inventory_renamed_row +
  UNITS_SOLD :: int

record final_row = merged_row +
  DOI :: rat

record metric_row = final_row +
  DAILY_SALES :: rat

text \<open>The tables of the two grouped views: the group column, the sums, the metrics.\<close>

record sums_row =
  GROUP_KEY :: "string option"
  GR_UNITS_SOLD :: int
  GR_WAREHOUSE_QTY :: int
  GR_OPEN_PO_QUANTITY :: int

record grouped_row = sums_row +
  GR_DAILY_SALES :: rat
  GR_DOI :: rat

text \<open>
  A data frame as the column checks see it: the names of its columns and its rows. A
  row has a value for every column the script reads; the script reads a column only
  after the check that the frame has it.
\<close>

record 'r frame =
  columns :: "string list"
  rows :: "'r list"

text \<open>What the custom view shows: the prompt, or one of three tables.\<close>

datatype view =
    Info
  | CityTable "grouped_row list"
  | ProductTable "grouped_row list"
  | DetailTable "final_row list"

subsection \<open>pandas operations\<close>

text \<open>
  \<open>groupby(keys)\<close>: a row with NaN in a key column belongs to no group; the groups come
  out sorted by key. \<open>key\<close> gives the key of a row, \<open>None\<close> if a key cell is NaN.
\<close>

definition group_keys :: "('r \<Rightarrow> 'k option) \<Rightarrow> 'r list \<Rightarrow> ('k :: linorder) list" where
  "group_keys key rs = sort (remdups (List.map_filter key rs))"

definition group_rows :: "('r \<Rightarrow> 'k option) \<Rightarrow> 'r list \<Rightarrow> 'k \<Rightarrow> 'r list" where
  "group_rows key rs k = filter (\<lambda>r. key r = Some k) rs"

definition key3 :: "string option \<Rightarrow> string option \<Rightarrow> string option \<Rightarrow> (string \<times> string \<times> string) option" where
  "key3 a b c =
     (case a of
        None \<Rightarrow> None
      | Some a' \<Rightarrow>
          (case b of
             None \<Rightarrow> None
           | Some b' \<Rightarrow> (case c of None \<Rightarrow> None | Some c' \<Rightarrow> Some (a', b', c'))))"

text \<open>\<open>drop_duplicates\<close> keeps the first occurrence of every value.\<close>

fun drop_duplicates :: "'a list \<Rightarrow> 'a list" where
  "drop_duplicates [] = []"
| "drop_duplicates (v # vs) = v # drop_duplicates (filter (\<lambda>w. w \<noteq> v) vs)"

text \<open>\<open>tail(n)\<close>: the last \<open>n\<close> rows, all of them if there are fewer.\<close>

definition tail :: "nat \<Rightarrow> 'a list \<Rightarrow> 'a list" where
  "tail n vs = drop (length vs - n) vs"

text \<open>Sorting puts NaN last.\<close>

definition na_last :: "string option \<Rightarrow> bool \<times> string" where
  "na_last cell = (case cell of None \<Rightarrow> (True, []) | Some s \<Rightarrow> (False, s))"

text \<open>
  \<open>DataFrame.apply(f, axis=1)\<close>: \<open>f\<close> on every row in order; the first exception ends it.
\<close>

fun apply_axis1 :: "('r \<Rightarrow> error + 'a) \<Rightarrow> 'r list \<Rightarrow> error + 'a list" where
  "apply_axis1 f [] = Inr []"
| "apply_axis1 f (r # rs) =
     (case f r of
        Inl e \<Rightarrow> Inl e
      | Inr v \<Rightarrow> (case apply_axis1 f rs of Inl e \<Rightarrow> Inl e | Inr vs \<Rightarrow> Inr (v # vs)))"

subsection \<open>The pipeline, lines 20 to 87\<close>

text \<open>Lines 21 to 25.\<close>

definition inventory_key :: "inventory_record \<Rightarrow> (string \<times> string \<times> string) option" where
  "inventory_key r = key3 (City r) (SkuDescription r) (SkuCode r)"

definition inventory_agg :: "inventory_record list \<Rightarrow> inventory_record list" where
  "inventory_agg Inventory_df =
     map (\<lambda>(c, d, k).
            \<lparr>City = Some c, SkuDescription = Some d, SkuCode = Some k,
             OpenPoQuantity = sum_list (map OpenPoQuantity (group_rows inventory_key Inventory_df (c, d, k))),
             WarehouseQtyAvailable =
               sum_list (map WarehouseQtyAvailable (group_rows inventory_key Inventory_df (c, d, k)))\<rparr>)
         (group_keys inventory_key Inventory_df)"

text \<open>Line 28: \<open>to_dict\<close> lets a later row overwrite an earlier one with the same code.\<close>

definition item_to_product_map :: "inventory_record list \<Rightarrow> (string option \<rightharpoonup> string option)" where
  "item_to_product_map agg = map_of (rev (map (\<lambda>r. (SkuCode r, SkuDescription r)) agg))"

text \<open>Line 29: \<open>Series.map(dict)\<close> gives NaN where the dictionary has no entry.\<close>

definition add_product_name :: "(string option \<rightharpoonup> string option) \<Rightarrow> sales_record list \<Rightarrow> sales_named list" where
  "add_product_name m Sales_df =
     map (\<lambda>s. \<lparr>ORDERED_DATE = ORDERED_DATE s, S_CITY = S_CITY s, S_ITEM_CODE = S_ITEM_CODE s,
               S_UNITS_SOLD = S_UNITS_SOLD s,
               S_PRODUCT_NAME = (case m (S_ITEM_CODE s) of None \<Rightarrow> None | Some d \<Rightarrow> d)\<rparr>)
         Sales_df"

text \<open>Line 35.\<close>

definition unique_days :: "'a sales_record_scheme list \<Rightarrow> nat" where
  "unique_days Sales_df = length (remdups (map ORDERED_DATE Sales_df))"

text \<open>Lines 39 and 40.\<close>

definition recent_dates :: "'a sales_record_scheme list \<Rightarrow> nat \<Rightarrow> int list" where
  "recent_dates Sales_df x = tail x (sort (drop_duplicates (map ORDERED_DATE Sales_df)))"

definition filtered_df :: "'a sales_record_scheme list \<Rightarrow> nat \<Rightarrow> 'a sales_record_scheme list" where
  "filtered_df Sales_df x = filter (\<lambda>s. ORDERED_DATE s \<in> set (recent_dates Sales_df x)) Sales_df"

text \<open>Lines 43 to 48: group, sum, and only then upper-case the city column.\<close>

definition sales_key :: "sales_named \<Rightarrow> (string \<times> string \<times> string) option" where
  "sales_key s = key3 (S_CITY s) (S_PRODUCT_NAME s) (S_ITEM_CODE s)"

definition sales_grouped :: "sales_named list \<Rightarrow> sales_group list" where
  "sales_grouped df =
     map (\<lambda>(c, p, i).
            \<lparr>SG_CITY = Some c, SG_PRODUCT_NAME = Some p, SG_ITEM_CODE = Some i,
             SG_UNITS_SOLD = sum_list (map S_UNITS_SOLD (group_rows sales_key df (c, p, i)))\<rparr>)
         (group_keys sales_key df)"

definition sales_filtered_grouped_df :: "sales_named list \<Rightarrow> sales_group list" where
  "sales_filtered_grouped_df df = map (\<lambda>g. g\<lparr>SG_CITY := str_upper (SG_CITY g)\<rparr>) (sales_grouped df)"

text \<open>Lines 51 to 57.\<close>

definition inventory_renamed :: "inventory_record list \<Rightarrow> inventory_renamed_row list" where
  "inventory_renamed agg =
     map (\<lambda>r. \<lparr>CITY = City r, ITEM_CODE = SkuCode r, PRODUCT_NAME = SkuDescription r,
               OPEN_PO_QUANTITY = OpenPoQuantity r, WAREHOUSE_QTY = WarehouseQtyAvailable r\<rparr>)
         agg"

text \<open>
  Lines 61 to 66, \<open>pd.merge(how='left')\<close>: the left rows in order, each once per right row
  with the same key, or once with a NaN in the right table's columns if there is none.
\<close>

definition matching :: "sales_group list \<Rightarrow> inventory_renamed_row \<Rightarrow> sales_group list" where
  "matching sales_selected l =
     filter (\<lambda>g. SG_CITY g = CITY l \<and> SG_ITEM_CODE g = ITEM_CODE l \<and> SG_PRODUCT_NAME g = PRODUCT_NAME l)
            sales_selected"

definition pd_merge_left ::
  "inventory_renamed_row list \<Rightarrow> sales_group list \<Rightarrow> (inventory_renamed_row \<times> int option) list" where
  "pd_merge_left left right =
     concat (map (\<lambda>l. case matching right l of
                         [] \<Rightarrow> [(l, None)]
                       | g # gs \<Rightarrow> map (\<lambda>g'. (l, Some (SG_UNITS_SOLD g'))) (g # gs))
                 left)"

text \<open>Lines 69 to 71: \<open>fillna(0).astype(int)\<close>.\<close>

definition fillna0 :: "int option \<Rightarrow> int" where
  "fillna0 cell = (case cell of None \<Rightarrow> 0 | Some n \<Rightarrow> n)"

definition merged_df :: "inventory_renamed_row list \<Rightarrow> sales_group list \<Rightarrow> merged_row list" where
  "merged_df left right =
     map (\<lambda>(l, u). \<lparr>CITY = CITY l, ITEM_CODE = ITEM_CODE l, PRODUCT_NAME = PRODUCT_NAME l,
                    OPEN_PO_QUANTITY = OPEN_PO_QUANTITY l, WAREHOUSE_QTY = WAREHOUSE_QTY l,
                    UNITS_SOLD = fillna0 u\<rparr>)
         (pd_merge_left left right)"

text \<open>
  Lines 74 to 78 (and again 173 to 177): the daily sales column, and the lambda that
  \<open>apply\<close> runs on every row. The same lambda is at lines 184 and 195.
\<close>

definition doi_lambda :: "int \<Rightarrow> rat \<Rightarrow> error + rat" where
  "doi_lambda warehouse_qty daily_sales =
     (if 0 < daily_sales
      then (case py_truediv warehouse_qty daily_sales of Inl e \<Rightarrow> Inl e | Inr q \<Rightarrow> Inr (py_round2 q))
      else Inr 0)"

definition with_metrics :: "nat \<Rightarrow> 'a merged_row_scheme \<Rightarrow> error + metric_row" where
  "with_metrics x r =
     (case doi_lambda (WAREHOUSE_QTY r) (np_true_divide (UNITS_SOLD r) x) of
        Inl e \<Rightarrow> Inl e
      | Inr d \<Rightarrow>
          Inr \<lparr>CITY = CITY r, ITEM_CODE = ITEM_CODE r, PRODUCT_NAME = PRODUCT_NAME r,
               OPEN_PO_QUANTITY = OPEN_PO_QUANTITY r, WAREHOUSE_QTY = WAREHOUSE_QTY r,
               UNITS_SOLD = UNITS_SOLD r, DOI = d,
               DAILY_SALES = np_true_divide (UNITS_SOLD r) x\<rparr>)"

definition doi_calculation :: "nat \<Rightarrow> merged_row list \<Rightarrow> error + metric_row list" where
  "doi_calculation x df = apply_axis1 (with_metrics x) df"

text \<open>Line 81.\<close>

definition exclusion_terms :: "string list" where
  "exclusion_terms = [''gift'', ''celebration'', ''sample'']"

definition exclusion_filter :: "'a inventory_renamed_row_scheme list \<Rightarrow> 'a inventory_renamed_row_scheme list" where
  "exclusion_filter df = filter (\<lambda>r. \<not> str_contains exclusion_terms False (PRODUCT_NAME r)) df"

text \<open>Lines 85 to 87: the seven columns, the floor, the sort.\<close>

definition select_final :: "metric_row \<Rightarrow> final_row" where
  "select_final r =
     \<lparr>CITY = CITY r, ITEM_CODE = ITEM_CODE r, PRODUCT_NAME = PRODUCT_NAME r,
      OPEN_PO_QUANTITY = OPEN_PO_QUANTITY r, WAREHOUSE_QTY = WAREHOUSE_QTY r,
      UNITS_SOLD = UNITS_SOLD r, DOI = DOI r\<rparr>"

definition floor_doi :: "final_row \<Rightarrow> final_row" where
  "floor_doi r = r\<lparr>DOI := np_floor (DOI r)\<rparr>"

definition sort_values :: "final_row list \<Rightarrow> final_row list" where
  "sort_values df = sort_key (\<lambda>r. (na_last (CITY r), - DOI r)) df"

definition final_df :: "metric_row list \<Rightarrow> final_row list" where
  "final_df df = sort_values (map (floor_doi \<circ> select_final) (exclusion_filter df))"

text \<open>The tables the script builds from its two inputs, up to the merge.\<close>

definition sales_selected :: "inventory_record list \<Rightarrow> sales_record list \<Rightarrow> nat \<Rightarrow> sales_group list" where
  "sales_selected Inventory_df Sales_df x =
     sales_filtered_grouped_df
       (filtered_df (add_product_name (item_to_product_map (inventory_agg Inventory_df)) Sales_df) x)"

definition reconcile :: "inventory_record list \<Rightarrow> sales_record list \<Rightarrow> nat \<Rightarrow> merged_row list" where
  "reconcile Inventory_df Sales_df x =
     merged_df (inventory_renamed (inventory_agg Inventory_df)) (sales_selected Inventory_df Sales_df x)"

definition pipeline :: "inventory_record list \<Rightarrow> sales_record list \<Rightarrow> nat \<Rightarrow> error + final_row list" where
  "pipeline Inventory_df Sales_df x =
     (case doi_calculation x (reconcile Inventory_df Sales_df x) of
        Inl e \<Rightarrow> Inl e
      | Inr df \<Rightarrow> Inr (final_df df))"

subsection \<open>The custom view, lines 119 to 205\<close>

text \<open>Lines 119 and 120: \<open>sorted(column.unique())\<close>.\<close>

definition unique_sorted :: "string option list \<Rightarrow> string option list" where
  "unique_sorted cells = sort_key na_last (drop_duplicates cells)"

definition all_cities :: "final_row list \<Rightarrow> string option list" where
  "all_cities final = unique_sorted (map CITY final)"

definition all_products :: "final_row list \<Rightarrow> string option list" where
  "all_products final = unique_sorted (map PRODUCT_NAME final)"

text \<open>
  Lines 128 to 137: what the two multiselects offer besides \<open>All\<close>. A selection is a
  list of offered values.
\<close>

definition available_cities :: "final_row list \<Rightarrow> string option list \<Rightarrow> string option list" where
  "available_cities final selected_products_raw =
     (if selected_products_raw \<noteq> [] \<and> Some ''All'' \<notin> set selected_products_raw
      then unique_sorted (map CITY (filter (\<lambda>r. PRODUCT_NAME r \<in> set selected_products_raw) final))
      else unique_sorted (map CITY final))"

definition available_products :: "final_row list \<Rightarrow> string option list \<Rightarrow> string option list" where
  "available_products final selected_cities_raw =
     (if selected_cities_raw \<noteq> [] \<and> Some ''All'' \<notin> set selected_cities_raw
      then unique_sorted (map PRODUCT_NAME (filter (\<lambda>r. CITY r \<in> set selected_cities_raw) final))
      else unique_sorted (map PRODUCT_NAME final))"

text \<open>Lines 160 and 161.\<close>

definition resolve_selection :: "string option list \<Rightarrow> string option list \<Rightarrow> string option list" where
  "resolve_selection everything raw = (if Some ''All'' \<in> set raw \<or> raw = [] then everything else raw)"

text \<open>Lines 164 to 166.\<close>

definition custom_filtered :: "final_row list \<Rightarrow> string option list \<Rightarrow> string option list \<Rightarrow> final_row list" where
  "custom_filtered final selected_cities selected_products =
     filter (\<lambda>r. CITY r \<in> set selected_cities \<and> PRODUCT_NAME r \<in> set selected_products) final"

text \<open>Lines 181 and 192: \<open>groupby(col)[[...]].sum().reset_index()\<close>.\<close>

definition group_sums :: "(metric_row \<Rightarrow> string option) \<Rightarrow> metric_row list \<Rightarrow> sums_row list" where
  "group_sums col df =
     map (\<lambda>k. \<lparr>GROUP_KEY = Some k,
               GR_UNITS_SOLD = sum_list (map UNITS_SOLD (group_rows col df k)),
               GR_WAREHOUSE_QTY = sum_list (map WAREHOUSE_QTY (group_rows col df k)),
               GR_OPEN_PO_QUANTITY = sum_list (map OPEN_PO_QUANTITY (group_rows col df k))\<rparr>)
         (group_keys col df)"

text \<open>Lines 182 to 187 and 193 to 198: daily sales, the lambda, the floor.\<close>

definition grouped_metrics :: "nat \<Rightarrow> sums_row \<Rightarrow> error + grouped_row" where
  "grouped_metrics x g =
     (case doi_lambda (GR_WAREHOUSE_QTY g) (np_true_divide (GR_UNITS_SOLD g) x) of
        Inl e \<Rightarrow> Inl e
      | Inr d \<Rightarrow>
          Inr \<lparr>GROUP_KEY = GROUP_KEY g, GR_UNITS_SOLD = GR_UNITS_SOLD g,
               GR_WAREHOUSE_QTY = GR_WAREHOUSE_QTY g, GR_OPEN_PO_QUANTITY = GR_OPEN_PO_QUANTITY g,
               GR_DAILY_SALES = np_true_divide (GR_UNITS_SOLD g) x,
               GR_DOI = np_floor d\<rparr>)"

definition grouped :: "nat \<Rightarrow> (metric_row \<Rightarrow> string option) \<Rightarrow> metric_row list \<Rightarrow> error + grouped_row list" where
  "grouped x col df = apply_axis1 (grouped_metrics x) (group_sums col df)"

text \<open>Lines 160 to 205. The metrics of lines 173 to 177 are computed in all three cases.\<close>

definition custom_doi_view ::
  "final_row list \<Rightarrow> nat \<Rightarrow> string option list \<Rightarrow> string option list \<Rightarrow> error + view" where
  "custom_doi_view final x selected_cities_raw selected_products_raw =
     (let selected_cities = resolve_selection (all_cities final) selected_cities_raw;
          selected_products = resolve_selection (all_products final) selected_products_raw;
          fdf = custom_filtered final selected_cities selected_products
      in if selected_cities_raw = [] \<and> selected_products_raw = [] then Inr Info
         else (case apply_axis1 (with_metrics x) fdf of
                 Inl e \<Rightarrow> Inl e
               | Inr df \<Rightarrow>
                   if selected_cities_raw \<noteq> [] \<and> selected_products_raw = []
                   then (case grouped x CITY df of Inl e \<Rightarrow> Inl e | Inr g \<Rightarrow> Inr (CityTable g))
                   else if selected_products_raw \<noteq> [] \<and> selected_cities_raw = []
                   then (case grouped x PRODUCT_NAME df of Inl e \<Rightarrow> Inl e | Inr g \<Rightarrow> Inr (ProductTable g))
                   else Inr (DetailTable (map (floor_doi \<circ> select_final) df))))"

subsection \<open>Column checks\<close>

text \<open>
  \<open>groupby(keys)\<close> raises \<open>KeyError\<close> for the first key that is not a column,
  \<open>[[c1, c2]]\<close> for the listed columns that are missing, \<open>[c]\<close> for \<open>c\<close>.
\<close>

definition groupby_check :: "string list \<Rightarrow> string list \<Rightarrow> error + unit" where
  "groupby_check cols keys =
     (case filter (\<lambda>k. k \<notin> set cols) keys of [] \<Rightarrow> Inr () | k # ks \<Rightarrow> Inl (KeyError [k]))"

definition getitem_list_check :: "string list \<Rightarrow> string list \<Rightarrow> error + unit" where
  "getitem_list_check cols wanted =
     (case filter (\<lambda>k. k \<notin> set cols) wanted of [] \<Rightarrow> Inr () | k # ks \<Rightarrow> Inl (KeyError (k # ks)))"

definition getitem_check :: "string list \<Rightarrow> string \<Rightarrow> error + unit" where
  "getitem_check cols c = (if c \<in> set cols then Inr () else Inl (KeyError [c]))"

text \<open>
  The script from line 17 to line 87, on the two frames. The checks are in the order of
  the statements that make them: lines 22, 29, 32 and 44 (where the sales frame has the
  added column \<open>PRODUCT_NAME\<close>). No statement between them can raise.
\<close>

definition app :: "inventory_record frame \<Rightarrow> sales_record frame \<Rightarrow> nat \<Rightarrow> error + final_row list" where
  "app Inventory_df Sales_df x =
     (case groupby_check (columns Inventory_df) [''City'', ''SkuDescription'', ''SkuCode''] of
        Inl e \<Rightarrow> Inl e
      | Inr _ \<Rightarrow>
     (case getitem_list_check (columns Inventory_df) [''OpenPoQuantity'', ''WarehouseQtyAvailable''] of
        Inl e \<Rightarrow> Inl e
      | Inr _ \<Rightarrow>
     (case getitem_check (columns Sales_df) ''ITEM_CODE'' of
        Inl e \<Rightarrow> Inl e
      | Inr _ \<Rightarrow>
     (case getitem_check (columns Sales_df @ [''PRODUCT_NAME'']) ''ORDERED_DATE'' of
        Inl e \<Rightarrow> Inl e
      | Inr _ \<Rightarrow>
     (case groupby_check (columns Sales_df @ [''PRODUCT_NAME'']) [''CITY'', ''PRODUCT_NAME'', ''ITEM_CODE''] of
        Inl e \<Rightarrow> Inl e
      | Inr _ \<Rightarrow>
     (case getitem_check (columns Sales_df @ [''PRODUCT_NAME'']) ''UNITS_SOLD'' of
        Inl e \<Rightarrow> Inl e
      | Inr _ \<Rightarrow> pipeline (rows Inventory_df) (rows Sales_df) x))))))"

definition required_inventory_columns :: "string list" where
  "required_inventory_columns =
     [''City'', ''SkuDescription'', ''SkuCode'', ''OpenPoQuantity'', ''WarehouseQtyAvailable'']"

definition required_sales_columns :: "string list" where
  "required_sales_columns = [''ORDERED_DATE'', ''CITY'', ''ITEM_CODE'', ''UNITS_SOLD'']"

subsection \<open>Example tables\<close>

definition inventory_example :: "inventory_record list" where
  "inventory_example =
     [\<lparr>City = Some ''MUMBAI'', SkuDescription = Some ''Widget'', SkuCode = Some ''SKU1'',
       OpenPoQuantity = 10, WarehouseQtyAvailable = 100\<rparr>]"

text \<open>Two sales of the same item on the same day, in cities that differ in letter case only.\<close>

definition sales_mixed_case :: "sales_record list" where
  "sales_mixed_case =
     [\<lparr>ORDERED_DATE = 1, S_CITY = Some ''Mumbai'', S_ITEM_CODE = Some ''SKU1'', S_UNITS_SOLD = 5\<rparr>,
      \<lparr>ORDERED_DATE = 1, S_CITY = Some ''MUMBAI'', S_ITEM_CODE = Some ''SKU1'', S_UNITS_SOLD = 7\<rparr>]"

text \<open>Sales on three days.\<close>

definition sales_three_days :: "sales_record list" where
  "sales_three_days =
     [\<lparr>ORDERED_DATE = 3, S_CITY = Some ''MUMBAI'', S_ITEM_CODE = Some ''SKU1'', S_UNITS_SOLD = 30\<rparr>,
      \<lparr>ORDERED_DATE = 1, S_CITY = Some ''MUMBAI'', S_ITEM_CODE = Some ''SKU1'', S_UNITS_SOLD = 10\<rparr>,
      \<lparr>ORDERED_DATE = 2, S_CITY = Some ''MUMBAI'', S_ITEM_CODE = Some ''SKU1'', S_UNITS_SOLD = 20\<rparr>]"


section \<open>Properties\<close>

subsection \<open>The trailing window\<close>

lemma set_tail_mono: "n1 \<le> n2 \<Longrightarrow> set (tail n1 vs) \<subseteq> set (tail n2 vs)"
  unfolding tail_def by (rule set_drop_subset_set_drop) simp

lemma recent_dates_mono:
  "n1 \<le> n2 \<Longrightarrow> set (recent_dates Sales_df n1) \<subseteq> set (recent_dates Sales_df n2)"
  unfolding recent_dates_def by (rule set_tail_mono)

text \<open>
  Claim C7. A smaller window keeps a subset of the sales records that a larger window
  keeps: for \<open>n1 \<le> n2\<close> every record kept under \<open>n1\<close> is kept under \<open>n2\<close>, and the table
  under \<open>n1\<close> is the table under \<open>n2\<close> restricted to the dates of \<open>n1\<close> (same order, same
  multiplicity). This holds for all window sizes, so for those between 1 and the number
  of distinct dates.
\<close>

theorem window_monotone:
  assumes "n1 \<le> n2"
  shows "set (filtered_df Sales_df n1) \<subseteq> set (filtered_df Sales_df n2)
       \<and> filtered_df Sales_df n1 =
           filter (\<lambda>s. ORDERED_DATE s \<in> set (recent_dates Sales_df n1)) (filtered_df Sales_df n2)"
proof -
  have sub: "set (recent_dates Sales_df n1) \<subseteq> set (recent_dates Sales_df n2)"
    using assms by (rule recent_dates_mono)
  have "filter (\<lambda>s. ORDERED_DATE s \<in> set (recent_dates Sales_df n1)) (filtered_df Sales_df n2)
        = filter (\<lambda>s. ORDERED_DATE s \<in> set (recent_dates Sales_df n1)) Sales_df"
    unfolding filtered_df_def filter_filter
    by (rule filter_cong) (use sub in auto)
  then show ?thesis
    using sub unfolding filtered_df_def by auto
qed

theorem window_monotone_witness:
  "(1::nat) \<le> 2
   \<and> unique_days sales_three_days = 3
   \<and> map S_UNITS_SOLD (filtered_df sales_three_days 1) = [30]
   \<and> map S_UNITS_SOLD (filtered_df sales_three_days 2) = [30, 20]
   \<and> set (filtered_df sales_three_days 1) \<subseteq> set (filtered_df sales_three_days 2)"
proof -
  have a: "unique_days sales_three_days = 3" by code_simp
  have b: "map S_UNITS_SOLD (filtered_df sales_three_days 1) = [30]" by code_simp
  have c: "map S_UNITS_SOLD (filtered_df sales_three_days 2) = [30, 20]" by code_simp
  show ?thesis
    using a b c window_monotone [of 1 2 sales_three_days] by simp
qed

subsection \<open>The exclusion filter\<close>








end
